theory Spec2Isabelle
  imports Main "HOL-Library.Sublist"
begin

section \<open>Python values used by the chat service\<close>

text \<open>
  A Python \<open>str\<close> is a sequence of Unicode code points, so it is modelled as a list of
  natural numbers (one per code point), not as a list of bytes: the service's messages are
  Georgian text, and \<open>str.strip\<close> works on code points. \<open>ascii\<close> writes an ASCII literal
  of the source as such a list.
\<close>

type_synonym pystr = "nat list"

definition ascii :: "string \<Rightarrow> pystr" where
  "ascii s = map of_char s"

text \<open>
  \<open>str.isspace\<close> for one code point, as CPython decides it: the characters of
  bidirectional type WS, B or S, or of category Zs.
\<close>

definition py_isspace :: "nat \<Rightarrow> bool" where
  "py_isspace c =
     ((9 \<le> c \<and> c \<le> 13) \<or> (28 \<le> c \<and> c \<le> 32) \<or> c = 133 \<or> c = 160 \<or> c = 5760
      \<or> (8192 \<le> c \<and> c \<le> 8202) \<or> c = 8232 \<or> c = 8233 \<or> c = 8239 \<or> c = 8287
      \<or> c = 12288)"

text \<open>\<open>s.strip()\<close>: leading and trailing whitespace removed.\<close>

definition strip :: "pystr \<Rightarrow> pystr" where
  "strip s = rev (dropWhile py_isspace (rev (dropWhile py_isspace s)))"

text \<open>\<open>sep.join(xs)\<close>.\<close>

fun join :: "pystr \<Rightarrow> pystr list \<Rightarrow> pystr" where
  "join sep [] = []"
| "join sep [x] = x"
| "join sep (x # y # ys) = x @ sep @ join sep (y # ys)"

text \<open>
  The values that travel through the service's \<open>Dict[str, Any]\<close> payloads. A dict is
  an association list in insertion order, as Python keeps it.
\<close>

datatype pyval =
    PyStr pystr
  | PyBool bool
  | PyList "pyval list"
  | PyDict "(pystr \<times> pyval) list"

text \<open>
  What the program can raise. \<open>OtherError\<close> stands for the remaining subclasses of
  \<open>Exception\<close> (AttributeError, TypeError, a pydantic validation error, a failure of the
  \<open>genai\<close> library at construction); the handlers of the source treat them all alike.
  \<open>BaseException\<close> stands for an exception that is no instance of \<open>Exception\<close>
  (KeyboardInterrupt, SystemExit), with its text: \<open>except Exception\<close> does not catch it.
\<close>

datatype exn =
    HTTPException (status_code: nat) (detail: pystr)
  | RuntimeError pystr
  | KeyError pystr
  | OtherError
  | BaseException pystr

text \<open>\<open>d[k]\<close> raises KeyError on a missing key; \<open>d.get(k, default)\<close> does not.\<close>

definition dict_index :: "(pystr \<times> 'v) list \<Rightarrow> pystr \<Rightarrow> exn + 'v" where
  "dict_index d k = (case map_of d k of None \<Rightarrow> Inl (KeyError k) | Some v \<Rightarrow> Inr v)"

definition dict_get :: "(pystr \<times> 'v) list \<Rightarrow> pystr \<Rightarrow> 'v \<Rightarrow> 'v" where
  "dict_get d k dflt = (case map_of d k of None \<Rightarrow> dflt | Some v \<Rightarrow> v)"

section \<open>Constants of \<open>main.py\<close>\<close>

text \<open>
  \<open>ERROR_MESSAGES\<close>: "please write your question", "service temporarily unavailable",
  "error while processing" (in Georgian in the source).
\<close>

definition ERROR_MESSAGES :: "(pystr \<times> pystr) list" where
  "ERROR_MESSAGES =
    [(ascii ''empty_query'',
        [4306, 4311, 4334, 4317, 4309, 4311, 32, 4307, 4304, 4332, 4308, 4320, 4317, 4311, 32,
         4311, 4325, 4309, 4308, 4316, 4312, 32, 4313, 4312, 4311, 4334, 4309, 4304]),
     (ascii ''service_unavailable'',
        [4321, 4308, 4320, 4309, 4312, 4321, 4312, 32, 4307, 4320, 4317, 4308, 4305, 4312, 4311,
         32, 4315, 4312, 4323, 4332, 4309, 4307, 4317, 4315, 4308, 4314, 4312, 4304]),
     (ascii ''processing_error'',
        [4328, 4308, 4330, 4307, 4317, 4315, 4304, 32, 4307, 4304, 4315, 4323, 4328, 4304, 4309,
         4308, 4305, 4312, 4321, 4304, 4321])]"

text \<open>
  \<open>ERROR_MESSAGES[k]\<close> for the three literal keys the source uses; each is a key of the
  table, so the lookup never raises.
\<close>

definition error_message :: "string \<Rightarrow> pystr" where
  "error_message k = the (map_of ERROR_MESSAGES (ascii k))"

definition api_key_missing :: pystr where
  "api_key_missing =
    ascii ''GEMINI_API_KEY '' @
    [4304, 4320, 32, 4304, 4320, 4312, 4321, 32, 4306, 4304, 4316, 4321, 4304, 4310, 4326, 4309,
     4320, 4323, 4314, 4312, 32] @ ascii ''.env '' @ [4324, 4304, 4312, 4314, 4328, 4312]"

text \<open>The history block of a prompt with no prior messages: an em dash.\<close>

definition history_placeholder :: pystr where
  "history_placeholder = [8212]"

definition system_instruction :: pystr where
  "system_instruction =
    [4328, 4308, 4316, 32, 4334, 4304, 4320, 32, 4307, 4304, 4315, 4334, 4315, 4304, 4320, 4308,
     32, 65, 73, 32, 4304, 4321, 4312, 4321, 4322, 4308, 4316, 4322, 4312, 32, 83, 117, 98, 99,
     111, 110, 115, 99, 105, 111, 117, 115, 32, 4304, 4318, 4312, 4321, 4311, 4309, 4312, 4321,
     46, 32, 4323, 4318, 4304, 4321, 4323, 4334, 4308, 32, 4315, 4313, 4304, 4324, 4312, 4317,
     4307, 44, 32, 4321, 4322, 4320, 4323, 4325, 4322, 4323, 4320, 4312, 4320, 4308, 4305, 4323,
     4314, 4304, 4307, 32, 4307, 4304, 32, 4315, 4304, 4325, 4321, 4312, 4315, 4304, 4314, 4323,
     4320, 4304, 4307, 32, 4321, 4304, 4321, 4304, 4320, 4306, 4308, 4305, 4314, 4317, 4307, 46,
     32, 4311, 4323, 32, 4313, 4312, 4311, 4334, 4309, 4304, 32, 4304, 4320, 32, 4304, 4320,
     4312, 4321, 32, 4316, 4304, 4311, 4308, 4314, 4312, 44, 32, 4321, 4311, 4334, 4317, 4309,
     4312, 32, 4315, 4317, 4315, 4334, 4315, 4304, 4320, 4308, 4305, 4308, 4314, 4321, 32, 4307,
     4304, 4310, 4323, 4321, 4322, 4308, 4305, 4304, 4321, 46]"

text \<open>
  The literal pieces of the f-string \<open>full_prompt\<close>: the heading of the history block
  ("conversation history:"), the heading of the query ("now the user's new question:") and
  the closing instruction ("please give a detailed and clear answer in Georgian.").
\<close>

definition history_heading :: pystr where
  "history_heading =
    [4321, 4304, 4323, 4305, 4320, 4312, 4321, 32, 4312, 4321, 4322, 4317, 4320, 4312, 4304, 58]"

definition query_heading :: pystr where
  "query_heading =
    [4304, 4334, 4314, 4304, 32, 4315, 4317, 4315, 4334, 4315, 4304, 4320, 4308, 4305, 4314,
     4312, 4321, 32, 4304, 4334, 4304, 4314, 4312, 32, 4313, 4312, 4311, 4334, 4309, 4304, 58]"

definition closing_instruction :: pystr where
  "closing_instruction =
    [4306, 4311, 4334, 4317, 4309, 32, 4307, 4308, 4322, 4304, 4314, 4323, 4320, 4312, 32, 4307,
     4304, 32, 4306, 4304, 4321, 4304, 4306, 4308, 4305, 4312, 32, 4318, 4304, 4321, 4323, 4334,
     4312, 32, 4325, 4304, 4320, 4311, 4323, 4314, 4304, 4307, 46]"

text \<open>The answer used when the model gives no text ("could not process this query").\<close>

definition fallback_answer :: pystr where
  "fallback_answer =
    [4309, 4308, 4320, 32, 4328, 4308, 4309, 4331, 4308, 4314, 4312, 32, 4304, 4315, 32, 4313,
     4312, 4311, 4334, 4309, 4312, 4321, 32, 4307, 4304, 4315, 4323, 4328, 4304, 4309, 4308,
     4305, 4304, 44, 32, 4321, 4330, 4304, 4307, 4308, 32, 4321, 4334, 4309, 4304, 32, 4324,
     4317, 4320, 4315, 4323, 4314, 4312, 4320, 4308, 4305, 4304, 46]"

definition source_content :: pystr where
  "source_content =
    [4318, 4304, 4321, 4323, 4334, 4312, 32, 4306, 4308, 4316, 4308, 4320, 4312, 4320, 4308,
     4305, 4323, 4314, 4312, 4304, 32] @ ascii ''Gemini '' @
    [4315, 4317, 4307, 4308, 4314, 4312, 4311, 32, 4315, 4317, 4330, 4308, 4315, 4323, 4314,
     4312, 32, 4312, 4321, 4322, 4317, 4320, 4312, 4312, 4321, 32, 4307, 4304, 32, 4313, 4312,
     4311, 4334, 4309, 4312, 4321, 32, 4321, 4304, 4324, 4323, 4331, 4309, 4308, 4314, 4310,
     4308, 46]"

definition init_error_prefix :: pystr where
  "init_error_prefix = [10060] @ ascii '' RagService init error: ''"

definition chat_error_prefix :: pystr where
  "chat_error_prefix = [10060] @ ascii '' Error in /api/chat: ''"

section \<open>Request and response schemas\<close>

text \<open>\<open>role: Literal["user", "assistant"]\<close>: the schema admits exactly two values.\<close>

datatype Role = Role_user | Role_assistant

fun role_str :: "Role \<Rightarrow> pystr" where
  "role_str Role_user = ascii ''user''"
| "role_str Role_assistant = ascii ''assistant''"

record ConversationMessage =
  role :: Role
  content :: pystr

record ChatRequest =
  message :: pystr
  conversation_history :: "ConversationMessage list"

text \<open>
  The fields of \<open>Source\<close> carry a prime: \<open>id\<close> is a constant of HOL, \<open>section\<close> a
  keyword, and \<open>content\<close> a field of \<open>ConversationMessage\<close>.
\<close>

record Source =
  id' :: int
  content' :: pystr
  section' :: pystr

record ChatResponse =
  answer :: pystr
  sources :: "Source list"
  metadata :: "(pystr \<times> pyval) list"

section \<open>The model client and the effects of a request\<close>

text \<open>
  \<open>self.model.generate_content(full_prompt)\<close> is external. One call either raises an
  instance of \<open>Exception\<close> (\<open>Raises\<close>; the payload is \<open>str(e)\<close>, all the source reads
  of the exception), or raises an exception that is no instance of \<open>Exception\<close>
  (\<open>RaisesBase\<close>: KeyboardInterrupt, SystemExit), or returns a response object: \<open>None\<close>
  for a falsy one, else its \<open>text\<close> attribute (\<open>None\<close> or a string). An exception raised
  while reading \<open>response.text\<close> is inside the same \<open>try\<close> block and counts as a raise of
  the call. The client may answer differently from call to call: it reads and updates a
  world state of type \<open>'w\<close>.
\<close>

datatype response = Response (text': "pystr option")

datatype client_result = Raises pystr | RaisesBase pystr | Returns "response option"

record 'w RagService =
  model :: "pystr \<Rightarrow> 'w \<Rightarrow> client_result \<times> 'w"

text \<open>
  What a request does besides returning: each call of the model client with its prompt,
  and each line printed for the operator (the literal prefix and the exception whose text
  is interpolated after it).
\<close>

datatype event = Model_call pystr | Printed pystr exn

record 'w state =
  world :: 'w
  trace :: "event list"

section \<open>\<open>RagService\<close>\<close>

text \<open>
  \<open>RagService.__init__\<close>: \<open>api_key\<close> is what \<open>os.getenv("GEMINI_API_KEY")\<close> returned;
  \<open>genai\<close> stands for \<open>genai.configure\<close> followed by \<open>genai.GenerativeModel\<close>, and
  gives \<open>None\<close> when one of them raised an instance of \<open>Exception\<close>. (An exception that
  is no instance of \<open>Exception\<close> would end the import of the module: then there is no
  service and no request.)
\<close>

definition RagService_init ::
  "pystr option \<Rightarrow> (pystr \<Rightarrow> pystr \<Rightarrow> (pystr \<Rightarrow> 'w \<Rightarrow> client_result \<times> 'w) option)
   \<Rightarrow> exn + 'w RagService" where
  "RagService_init api_key genai =
     (case api_key of
        None \<Rightarrow> Inl (RuntimeError api_key_missing)
      | Some k \<Rightarrow>
          if k = [] then Inl (RuntimeError api_key_missing)
          else (case genai k (ascii ''gemini-2.5-flash'') of
                  None \<Rightarrow> Inl OtherError
                | Some m \<Rightarrow> Inr \<lparr>model = m\<rparr>))"

text \<open>
  The module-level \<open>try: rag_service = RagService() except Exception\<close>: the global is
  \<open>None\<close> when construction failed, and the failure is printed.
\<close>

definition rag_service ::
  "pystr option \<Rightarrow> (pystr \<Rightarrow> pystr \<Rightarrow> (pystr \<Rightarrow> 'w \<Rightarrow> client_result \<times> 'w) option)
   \<Rightarrow> 'w RagService option \<times> event list" where
  "rag_service api_key genai =
     (case RagService_init api_key genai of
        Inl e \<Rightarrow> (None, [Printed init_error_prefix e])
      | Inr svc \<Rightarrow> (Some svc, []))"

text \<open>
  The loop of \<open>generate_response\<close> that fills \<open>history_text_lines\<close>; the second argument
  is the list built so far. \<open>msg["role"]\<close> is read before \<open>msg['content']\<close>.
\<close>

fun history_text_lines :: "(pystr \<times> pystr) list list \<Rightarrow> pystr list \<Rightarrow> exn + pystr list" where
  "history_text_lines [] acc = Inr acc"
| "history_text_lines (msg # rest) acc =
     (case dict_index msg (ascii ''role'') of
        Inl e \<Rightarrow> Inl e
      | Inr r \<Rightarrow>
          (let prefix = (if r = ascii ''user'' then ascii ''User'' else ascii ''Assistant'') in
           case dict_index msg (ascii ''content'') of
             Inl e \<Rightarrow> Inl e
           | Inr c \<Rightarrow> history_text_lines rest (acc @ [prefix @ ascii '': '' @ c])))"

text \<open>Lines 77 to 95 of \<open>generate_response\<close>: the prompt, built before the \<open>try\<close> block.\<close>

definition full_prompt :: "pystr \<Rightarrow> (pystr \<times> pystr) list list \<Rightarrow> exn + pystr" where
  "full_prompt query history =
     (case history_text_lines history [] of
        Inl e \<Rightarrow> Inl e
      | Inr lines \<Rightarrow>
          (let history_text = (if lines \<noteq> [] then join [10] lines else history_placeholder) in
           Inr (system_instruction @ [10, 10]
                @ history_heading @ [10] @ history_text @ [10, 10]
                @ query_heading @ [10] @ ascii ''User: '' @ query @ [10, 10]
                @ closing_instruction)))"

text \<open>
  \<open>RagService.generate_response\<close>. The \<open>try\<close> block holds the client call and the
  assembly of the result; an instance of \<open>Exception\<close> raised there becomes
  \<open>RuntimeError("Gemini error: ...")\<close>, and any other exception leaves the function as it
  is.
\<close>

definition generate_response ::
  "'w RagService \<Rightarrow> pystr \<Rightarrow> (pystr \<times> pystr) list list \<Rightarrow> 'w state
   \<Rightarrow> (exn + (pystr \<times> pyval) list) \<times> 'w state" where
  "generate_response self query history s =
     (case full_prompt query history of
        Inl e \<Rightarrow> (Inl e, s)
      | Inr p \<Rightarrow>
          (case model self p (world s) of
             (result, w) \<Rightarrow>
               (let s' = s\<lparr>world := w, trace := trace s @ [Model_call p]\<rparr> in
                case result of
                  Raises e \<Rightarrow> (Inl (RuntimeError (ascii ''Gemini error: '' @ e)), s')
                | RaisesBase b \<Rightarrow> (Inl (BaseException b), s')
                | Returns response \<Rightarrow>
                    (let answer_text =
                           (case response of
                              None \<Rightarrow> fallback_answer
                            | Some r \<Rightarrow>
                                (case text' r of
                                   None \<Rightarrow> fallback_answer
                                 | Some t \<Rightarrow> if t = [] then fallback_answer else t));
                         sources =
                           [PyDict [(ascii ''content'', PyStr source_content),
                                    (ascii ''section'', PyStr (ascii ''model: gemini-2.5-flash''))]];
                         metadata =
                           [(ascii ''model'', PyStr (ascii ''gemini-2.5-flash'')),
                            (ascii ''has_history'', PyBool (history \<noteq> []))]
                     in (Inr [(ascii ''answer'', PyStr answer_text),
                              (ascii ''source_documents'', PyList sources),
                              (ascii ''metadata'', PyDict metadata)], s')))))"

section \<open>The endpoints\<close>

text \<open>\<open>GET /health\<close>; the argument is the module's \<open>rag_service\<close> global.\<close>

definition health :: "'w RagService option \<Rightarrow> (pystr \<times> pyval) list" where
  "health rs =
     [(ascii ''status'', PyStr (ascii ''ok'')),
      (ascii ''rag_service_ready'', PyBool (rs \<noteq> None))]"

text \<open>Step 3 of \<open>chat\<close>: the history as plain dictionaries.\<close>

definition history_payload :: "ConversationMessage list \<Rightarrow> (pystr \<times> pystr) list list" where
  "history_payload h =
     map (\<lambda>msg. [(ascii ''role'', role_str (role msg)), (ascii ''content'', content msg)]) h"

text \<open>
  Step 5 of \<open>chat\<close>: the loop over \<open>enumerate(raw.get("source_documents", []))\<close>, with
  the index and the list built so far. A document that is no dict, or a field that is no
  string, fails the construction of \<open>Source\<close>.
\<close>

fun build_sources :: "int \<Rightarrow> pyval list \<Rightarrow> Source list \<Rightarrow> exn + Source list" where
  "build_sources i [] acc = Inr acc"
| "build_sources i (doc # docs) acc =
     (case doc of
        PyDict d \<Rightarrow>
          (case (dict_get d (ascii ''content'') (PyStr []), dict_get d (ascii ''section'') (PyStr [])) of
             (PyStr c, PyStr sec) \<Rightarrow>
               build_sources (i + 1) docs (acc @ [\<lparr>id' = i, content' = c, section' = sec\<rparr>])
           | _ \<Rightarrow> Inl OtherError)
      | _ \<Rightarrow> Inl OtherError)"

text \<open>The body of the \<open>try\<close> block of \<open>chat\<close> (steps 3 to 5).\<close>

definition chat_try ::
  "'w RagService \<Rightarrow> ChatRequest \<Rightarrow> 'w state \<Rightarrow> (exn + ChatResponse) \<times> 'w state" where
  "chat_try svc request s =
     (case generate_response svc (message request)
             (history_payload (conversation_history request)) s of
        (Inl e, s') \<Rightarrow> (Inl e, s')
      | (Inr raw, s') \<Rightarrow>
          (case dict_get raw (ascii ''source_documents'') (PyList []) of
             PyList docs \<Rightarrow>
               (case build_sources 0 docs [] of
                  Inl e \<Rightarrow> (Inl e, s')
                | Inr srcs \<Rightarrow>
                    (case (dict_get raw (ascii ''answer'') (PyStr []),
                           dict_get raw (ascii ''metadata'') (PyDict [])) of
                       (PyStr a, PyDict md) \<Rightarrow>
                         (Inr \<lparr>answer = a, sources = srcs, metadata = md\<rparr>, s')
                     | _ \<Rightarrow> (Inl OtherError, s')))
           | _ \<Rightarrow> (Inl OtherError, s')))"

text \<open>
  The two \<open>except\<close> clauses of \<open>chat\<close>: an \<open>HTTPException\<close> is raised again as it is,
  any other instance of \<open>Exception\<close> is printed and replaced by the fixed status 500. An
  exception that is no instance of \<open>Exception\<close> matches neither clause and leaves the
  handler.
\<close>

fun chat_except :: "(exn + ChatResponse) \<times> 'w state \<Rightarrow> (exn + ChatResponse) \<times> 'w state" where
  "chat_except (Inr r, s) = (Inr r, s)"
| "chat_except (Inl (HTTPException c d), s) = (Inl (HTTPException c d), s)"
| "chat_except (Inl (BaseException b), s) = (Inl (BaseException b), s)"
| "chat_except (Inl e, s) =
     (Inl (HTTPException 500 (error_message ''processing_error'')),
      s\<lparr>trace := trace s @ [Printed chat_error_prefix e]\<rparr>)"

text \<open>\<open>POST /api/chat\<close>; the first argument is the module's \<open>rag_service\<close> global.\<close>

definition chat ::
  "'w RagService option \<Rightarrow> ChatRequest \<Rightarrow> 'w state \<Rightarrow> (exn + ChatResponse) \<times> 'w state" where
  "chat rs request s =
     (case rs of
        None \<Rightarrow> (Inl (HTTPException 503 (error_message ''service_unavailable'')), s)
      | Some svc \<Rightarrow>
          if message request = [] \<or> strip (message request) = []
          then (Inl (HTTPException 400 (error_message ''empty_query'')), s)
          else chat_except (chat_try svc request s))"

text \<open>\<open>POST /chat\<close>.\<close>

definition chat_alias ::
  "'w RagService option \<Rightarrow> ChatRequest \<Rightarrow> 'w state \<Rightarrow> (exn + ChatResponse) \<times> 'w state" where
  "chat_alias rs request s = chat rs request s"

section \<open>What the specification says, and what a run leaves behind\<close>

text \<open>
  The line of one prior message in the specification's words: \<open>"<Label>: <content>"\<close>,
  with the label \<open>User\<close> for role user and \<open>Assistant\<close> for role assistant.
\<close>

definition spec_rendered_line :: "ConversationMessage \<Rightarrow> pystr" where
  "spec_rendered_line m =
     (case role m of Role_user \<Rightarrow> ascii ''User'' | Role_assistant \<Rightarrow> ascii ''Assistant'')
     @ ascii '': '' @ content m"

text \<open>
  A plain dictionary with the two keys of the docstring of \<open>generate_response\<close>, for any
  role string: the internal step does not go through the request schema.
\<close>

definition role_content_dict :: "pystr \<times> pystr \<Rightarrow> (pystr \<times> pystr) list" where
  "role_content_dict rc = [(ascii ''role'', fst rc), (ascii ''content'', snd rc)]"

text \<open>The events a run has added to the trace it started with.\<close>

definition new_events :: "'w state \<Rightarrow> 'v state \<Rightarrow> event list" where
  "new_events before after = drop (length (trace before)) (trace after)"

section \<open>Concrete inputs\<close>

text \<open>
  A stub of the model client that gives the same result to every prompt; its world counts
  the calls made.
\<close>

definition stub_service :: "client_result \<Rightarrow> nat RagService" where
  "stub_service r = \<lparr>model = (\<lambda>p w. (r, Suc w))\<rparr>"

definition idle :: "nat state" where
  "idle = \<lparr>world = 0, trace = []\<rparr>"

text \<open>A \<open>genai\<close> library that cannot build a model.\<close>

definition no_genai :: "pystr \<Rightarrow> pystr \<Rightarrow> (pystr \<Rightarrow> nat \<Rightarrow> client_result \<times> nat) option" where
  "no_genai k name = None"

definition hello_request :: ChatRequest where
  "hello_request = \<lparr>message = ascii ''Hello'', conversation_history = []\<rparr>"

definition hello_prompt :: pystr where
  "hello_prompt =
     system_instruction @ [10, 10] @ history_heading @ [10] @ history_placeholder @ [10, 10]
     @ query_heading @ [10] @ ascii ''User: Hello'' @ [10, 10] @ closing_instruction"

definition followup_request :: ChatRequest where
  "followup_request =
     \<lparr>message = ascii ''And then?'',
      conversation_history =
        [\<lparr>role = Role_user, content = ascii ''Hi''\<rparr>,
         \<lparr>role = Role_assistant, content = ascii ''Hello!''\<rparr>]\<rparr>"

definition followup_prompt :: pystr where
  "followup_prompt =
     system_instruction @ [10, 10] @ history_heading @ [10]
     @ ascii ''User: Hi'' @ [10] @ ascii ''Assistant: Hello!'' @ [10, 10]
     @ query_heading @ [10] @ ascii ''User: And then?'' @ [10, 10] @ closing_instruction"

definition blank_request :: ChatRequest where
  "blank_request =
     \<lparr>message = ascii ''   '',
      conversation_history = [\<lparr>role = Role_user, content = ascii ''Hi''\<rparr>]\<rparr>"

definition empty_request :: ChatRequest where
  "empty_request = \<lparr>message = [], conversation_history = []\<rparr>"

section \<open>Facts about the runtime functions and the constants\<close>

lemma strip_eq_Nil_iff: "strip s = [] \<longleftrightarrow> (\<forall>c\<in>set s. py_isspace c)"
proof
  assume a: "strip s = []"
  show "\<forall>c\<in>set s. py_isspace c"
  proof (rule ccontr)
    assume "\<not> (\<forall>c\<in>set s. py_isspace c)"
    then have ne: "dropWhile py_isspace s \<noteq> []" by simp
    then have "\<not> py_isspace (hd (dropWhile py_isspace s))" by (rule hd_dropWhile)
    moreover have "hd (dropWhile py_isspace s) \<in> set (rev (dropWhile py_isspace s))"
      using ne by simp
    ultimately have "dropWhile py_isspace (rev (dropWhile py_isspace s)) \<noteq> []"
      by auto
    with a show False by (simp add: strip_def)
  qed
next
  assume "\<forall>c\<in>set s. py_isspace c"
  then show "strip s = []" by (auto simp: strip_def dest: set_dropWhileD)
qed

lemma ascii_keys:
  "ascii ''role'' \<noteq> ascii ''content''" "ascii ''content'' \<noteq> ascii ''role''"
  "ascii ''user'' \<noteq> ascii ''assistant''" "ascii ''assistant'' \<noteq> ascii ''user''"
  by (simp_all add: ascii_def)



section \<open>The prompt of a request\<close>

lemma history_text_lines_payload:
  "history_text_lines (history_payload h) acc = Inr (acc @ map spec_rendered_line h)"
proof (induction h arbitrary: acc)
  case Nil
  show ?case by (simp add: history_payload_def)
next
  case (Cons m h)
  have step: "history_text_lines (history_payload (m # h)) acc
        = history_text_lines (history_payload h) (acc @ [spec_rendered_line m])"
    by (cases "role m")
       (simp_all add: history_payload_def dict_index_def spec_rendered_line_def ascii_keys)
  show ?case unfolding step Cons.IH by simp
qed

text \<open>
  \<open>join\<close> in terms of the list functions of HOL: the first line, then every later line
  after one separator.
\<close>

lemma join_Cons: "join sep (x # xs) = x @ concat (map (\<lambda>y. sep @ y) xs)"
  by (induction xs arbitrary: x) simp_all

lemma full_prompt_payload:
  "full_prompt q (history_payload h) =
     Inr (system_instruction @ [10, 10] @ history_heading @ [10]
          @ (case h of
               [] \<Rightarrow> history_placeholder
             | m # ms \<Rightarrow> spec_rendered_line m @ concat (map (\<lambda>x. 10 # spec_rendered_line x) ms))
          @ [10, 10] @ query_heading @ [10] @ ascii ''User: '' @ q @ [10, 10]
          @ closing_instruction)"
  by (cases h) (simp_all add: full_prompt_def history_text_lines_payload join_Cons comp_def)

lemma history_text_lines_dicts:
  "history_text_lines (map role_content_dict rcs) acc =
     Inr (acc @ map (\<lambda>rc. (if fst rc = ascii ''user'' then ascii ''User'' else ascii ''Assistant'')
                           @ ascii '': '' @ snd rc) rcs)"
proof (induction rcs arbitrary: acc)
  case Nil
  show ?case by simp
next
  case (Cons rc rcs)
  have step: "history_text_lines (map role_content_dict (rc # rcs)) acc
        = history_text_lines (map role_content_dict rcs)
            (acc @ [(if fst rc = ascii ''user'' then ascii ''User'' else ascii ''Assistant'')
                    @ ascii '': '' @ snd rc])"
    by (simp add: role_content_dict_def dict_index_def ascii_keys)
  show ?case unfolding step Cons.IH by simp
qed

lemma hello_prompt_built:
  "full_prompt (message hello_request) (history_payload (conversation_history hello_request))
     = Inr hello_prompt"
  by (simp add: full_prompt_payload hello_request_def hello_prompt_def ascii_def)

lemma followup_prompt_built:
  "full_prompt (message followup_request)
     (history_payload (conversation_history followup_request)) = Inr followup_prompt"
  by (simp add: full_prompt_payload followup_request_def followup_prompt_def
        spec_rendered_line_def ascii_def)

lemma hello_request_valid: "\<exists>c\<in>set (message hello_request). \<not> py_isspace c"
  by (simp add: hello_request_def ascii_def py_isspace_def)

lemma followup_request_valid: "\<exists>c\<in>set (message followup_request). \<not> py_isspace c"
  by (simp add: followup_request_def ascii_def py_isspace_def)

section \<open>One call of the model client\<close>

lemma generate_response_returns:
  assumes "full_prompt q h = Inr p" and "model svc p (world s) = (Returns resp, w)"
  shows "generate_response svc q h s =
    (Inr [(ascii ''answer'',
            PyStr (case resp of
                     None \<Rightarrow> fallback_answer
                   | Some r \<Rightarrow>
                       (case text' r of
                          None \<Rightarrow> fallback_answer
                        | Some t \<Rightarrow> if t = [] then fallback_answer else t))),
          (ascii ''source_documents'',
            PyList [PyDict [(ascii ''content'', PyStr source_content),
                            (ascii ''section'', PyStr (ascii ''model: gemini-2.5-flash''))]]),
          (ascii ''metadata'',
            PyDict [(ascii ''model'', PyStr (ascii ''gemini-2.5-flash'')),
                    (ascii ''has_history'', PyBool (h \<noteq> []))])],
     s\<lparr>world := w, trace := trace s @ [Model_call p]\<rparr>)"
  using assms by (simp add: generate_response_def)


lemma generate_response_trace:
  "trace (snd (generate_response svc q h s)) =
     trace s @ (case full_prompt q h of Inl e \<Rightarrow> [] | Inr p \<Rightarrow> [Model_call p])"
proof (cases "full_prompt q h")
  case (Inl e)
  then show ?thesis by (simp add: generate_response_def)
next
  case (Inr p)
  obtain res w where m: "model svc p (world s) = (res, w)" by (cases "model svc p (world s)")
  show ?thesis using Inr m by (cases res) (simp_all add: generate_response_def)
qed

lemma chat_try_returns:
  assumes "full_prompt (message request) (history_payload (conversation_history request)) = Inr p"
    and "model svc p (world s) = (Returns resp, w)"
  shows "chat_try svc request s =
    (Inr \<lparr>answer = (case resp of
                     None \<Rightarrow> fallback_answer
                   | Some r \<Rightarrow>
                       (case text' r of
                          None \<Rightarrow> fallback_answer
                        | Some t \<Rightarrow> if t = [] then fallback_answer else t)),
          sources = [\<lparr>id' = 0, content' = source_content,
                      section' = ascii ''model: gemini-2.5-flash''\<rparr>],
          metadata = [(ascii ''model'', PyStr (ascii ''gemini-2.5-flash'')),
                      (ascii ''has_history'', PyBool (conversation_history request \<noteq> []))]\<rparr>,
     s\<lparr>world := w, trace := trace s @ [Model_call p]\<rparr>)"
  unfolding chat_try_def generate_response_returns [OF assms]
  by (simp add: dict_get_def ascii_def history_payload_def)



lemma chat_valid:
  assumes "\<exists>c\<in>set (message request). \<not> py_isspace c"
  shows "chat (Some svc) request s = chat_except (chat_try svc request s)"
proof -
  from assms have "message request \<noteq> []" by auto
  moreover from assms have "strip (message request) \<noteq> []" by (simp add: strip_eq_Nil_iff)
  ultimately show ?thesis by (simp add: chat_def)
qed

section \<open>Successful requests\<close>

text \<open>
  C1. For every request whose message is non-empty and not only whitespace, with any
  history the schema admits (the empty one too): when the service is available and the
  model client, called with the prompt of the request, returns a non-empty text, the
  handler returns a \<open>ChatResponse\<close> whose answer is exactly that text and whose sources
  are one entry with id 0.
\<close>

theorem chat_answers_with_model_text:
  assumes "message request \<noteq> []" and "\<exists>c\<in>set (message request). \<not> py_isspace c"
    and "full_prompt (message request) (history_payload (conversation_history request)) = Inr p"
    and "model svc p (world s) = (Returns (Some (Response (Some t))), w)"
    and "t \<noteq> []"
  shows "\<exists>r. fst (chat (Some svc) request s) = Inr r \<and> answer r = t
             \<and> length (sources r) = 1 \<and> map id' (sources r) = [0]"
  using assms(5) by (simp add: chat_valid [OF assms(2)] chat_try_returns [OF assms(3,4)])

text \<open>
  The example of the specification: the message "Hello" with no history and a stub client
  that returns "Hi there".
\<close>

theorem chat_answers_with_model_text_witness:
  "message hello_request \<noteq> []
   \<and> (\<exists>c\<in>set (message hello_request). \<not> py_isspace c)
   \<and> full_prompt (message hello_request) (history_payload (conversation_history hello_request))
       = Inr hello_prompt
   \<and> model (stub_service (Returns (Some (Response (Some (ascii ''Hi there'')))))) hello_prompt
        (world idle) = (Returns (Some (Response (Some (ascii ''Hi there'')))), 1)
   \<and> ascii ''Hi there'' \<noteq> []
   \<and> (\<exists>r. fst (chat (Some (stub_service (Returns (Some (Response (Some (ascii ''Hi there'')))))))
                   hello_request idle) = Inr r
          \<and> answer r = ascii ''Hi there'' \<and> length (sources r) = 1 \<and> map id' (sources r) = [0])"
proof -
  have h1: "message hello_request \<noteq> []" by (simp add: hello_request_def ascii_def)
  have h4: "model (stub_service (Returns (Some (Response (Some (ascii ''Hi there'')))))) hello_prompt
        (world idle) = (Returns (Some (Response (Some (ascii ''Hi there'')))), 1)"
    by (simp add: stub_service_def idle_def)
  have h5: "ascii ''Hi there'' \<noteq> []" by (simp add: ascii_def)
  from chat_answers_with_model_text [OF h1 hello_request_valid hello_prompt_built h4 h5]
  show ?thesis using h1 hello_request_valid hello_prompt_built h4 h5 by blast
qed

text \<open>
  C2. For every request that reaches response assembly (the service is available, the
  message is not blank, the model client returns, with or without text), the metadata of
  the response holds the model identifier under \<open>model\<close> and, under \<open>has_history\<close>, a
  boolean that is true exactly when the conversation history of the request is non-empty.
\<close>

theorem metadata_has_model_and_history_flag:
  assumes "\<exists>c\<in>set (message request). \<not> py_isspace c"
    and "full_prompt (message request) (history_payload (conversation_history request)) = Inr p"
    and "model svc p (world s) = (Returns resp, w)"
  shows "\<exists>r. fst (chat (Some svc) request s) = Inr r
             \<and> map_of (metadata r) (ascii ''model'') = Some (PyStr (ascii ''gemini-2.5-flash''))
             \<and> map_of (metadata r) (ascii ''has_history'')
                 = Some (PyBool (conversation_history request \<noteq> []))"
  by (simp add: chat_valid [OF assms(1)] chat_try_returns [OF assms(2,3)] ascii_def)

theorem metadata_has_model_and_history_flag_witness:
  "(\<exists>c\<in>set (message followup_request). \<not> py_isspace c)
   \<and> full_prompt (message followup_request)
        (history_payload (conversation_history followup_request)) = Inr followup_prompt
   \<and> model (stub_service (Returns None)) followup_prompt (world idle) = (Returns None, 1)
   \<and> (\<exists>r. fst (chat (Some (stub_service (Returns None))) followup_request idle) = Inr r
          \<and> map_of (metadata r) (ascii ''model'') = Some (PyStr (ascii ''gemini-2.5-flash''))
          \<and> map_of (metadata r) (ascii ''has_history'') = Some (PyBool True))"
proof -
  have h3: "model (stub_service (Returns None)) followup_prompt (world idle) = (Returns None, 1)"
    by (simp add: stub_service_def idle_def)
  have ne: "conversation_history followup_request \<noteq> []" by (simp add: followup_request_def)
  from metadata_has_model_and_history_flag [OF followup_request_valid followup_prompt_built h3]
  show ?thesis using followup_request_valid followup_prompt_built h3 ne by simp
qed

section \<open>The prompt builder\<close>

text \<open>
  C3. For every history and query, the prompt is the fixed system instruction, a blank
  line, the heading of the history and the history block, a blank line, the heading of the
  query and the line \<open>User: <query>\<close>, a blank line, and the fixed closing instruction.
  The history block is the em dash (code point 8212, not the empty string) when the history
  is empty. Otherwise it is the line of the first prior message followed, for every later
  message in order, by one newline (code point 10) and the line of that message: all the
  lines joined by newlines. The line of a message is \<open>User: <content>\<close> for role user and
  \<open>Assistant: <content>\<close> for role assistant. The right-hand sides are written with the
  list functions of HOL, not with the \<open>join\<close> of the model.
\<close>

theorem prompt_builder_layout:
  "full_prompt q (history_payload h) =
     Inr (system_instruction @ [10, 10] @ history_heading @ [10]
          @ (case h of
               [] \<Rightarrow> [8212]
             | m # ms \<Rightarrow> spec_rendered_line m @ concat (map (\<lambda>x. 10 # spec_rendered_line x) ms))
          @ [10, 10] @ query_heading @ [10] @ ascii ''User: '' @ q @ [10, 10]
          @ closing_instruction)
   \<and> spec_rendered_line \<lparr>role = Role_user, content = c\<rparr> = ascii ''User: '' @ c
   \<and> spec_rendered_line \<lparr>role = Role_assistant, content = c\<rparr> = ascii ''Assistant: '' @ c
   \<and> full_prompt q (history_payload
         [\<lparr>role = Role_user, content = a\<rparr>, \<lparr>role = Role_assistant, content = b\<rparr>,
          \<lparr>role = Role_user, content = c\<rparr>]) =
       Inr (system_instruction @ [10, 10] @ history_heading @ [10]
            @ ascii ''User: '' @ a @ [10] @ ascii ''Assistant: '' @ b @ [10] @ ascii ''User: '' @ c
            @ [10, 10] @ query_heading @ [10] @ ascii ''User: '' @ q @ [10, 10]
            @ closing_instruction)"
  by (cases h)
     (simp_all add: full_prompt_payload history_placeholder_def spec_rendered_line_def ascii_def)

section \<open>Rejected requests\<close>

text \<open>
  C4, as amended. When the service is available, every request whose message is empty or
  only whitespace fails with status 400 and the message "please write your question",
  whatever its history; the state is returned as it was, so no call of the model client
  was made and nothing was printed.
\<close>

theorem blank_message_rejected_when_available:
  assumes "message request = [] \<or> (\<forall>c\<in>set (message request). py_isspace c)"
  shows "chat (Some svc) request s = (Inl (HTTPException 400 (error_message ''empty_query'')), s)
    \<and> new_events s (snd (chat (Some svc) request s)) = []"
proof -
  from assms have "message request = [] \<or> strip (message request) = []"
    by (auto simp: strip_eq_Nil_iff)
  then show ?thesis by (simp add: chat_def new_events_def)
qed

theorem blank_message_rejected_when_available_witness:
  "(message blank_request = [] \<or> (\<forall>c\<in>set (message blank_request). py_isspace c))
   \<and> chat (Some (stub_service (Raises []))) blank_request idle
       = (Inl (HTTPException 400 (error_message ''empty_query'')), idle)
   \<and> new_events idle (snd (chat (Some (stub_service (Raises []))) blank_request idle)) = []"
proof -
  have h: "message blank_request = [] \<or> (\<forall>c\<in>set (message blank_request). py_isspace c)"
    by (simp add: blank_request_def ascii_def py_isspace_def)
  from blank_message_rejected_when_available
         [where svc = "stub_service (Raises [])" and s = idle, OF h]
  show ?thesis using h by blast
qed

text \<open>
  C4 as it is written, for every request with a blank message, fails when the service is
  unavailable: the availability check comes first, and the empty message is answered with
  status 503, not 400.
\<close>

theorem blank_message_unavailable_counterexample:
  "fst (chat (None :: nat RagService option) empty_request idle)
     = Inl (HTTPException 503 (error_message ''service_unavailable''))
   \<and> fst (chat (None :: nat RagService option) empty_request idle)
     \<noteq> Inl (HTTPException 400 (error_message ''empty_query''))"
  by (simp add: chat_def)

text \<open>
  C5. When the construction of \<open>RagService\<close> failed at start, the global is \<open>None\<close>;
  then every request to the chat endpoint (and to its alias) fails with status 503 and the
  state is returned as it was, so no call of the model client was made; and \<open>/health\<close>
  reports \<open>rag_service_ready\<close> as false.
\<close>

theorem unavailable_service_gives_503:
  assumes "RagService_init api_key genai = Inl e"
  shows "fst (rag_service api_key genai) = None
    \<and> chat (fst (rag_service api_key genai)) request s
        = (Inl (HTTPException 503 (error_message ''service_unavailable'')), s)
    \<and> chat_alias (fst (rag_service api_key genai)) request s
        = (Inl (HTTPException 503 (error_message ''service_unavailable'')), s)
    \<and> health (fst (rag_service api_key genai))
        = [(ascii ''status'', PyStr (ascii ''ok'')), (ascii ''rag_service_ready'', PyBool False)]"
  using assms by (simp add: rag_service_def chat_def chat_alias_def health_def)

text \<open>A missing \<open>GEMINI_API_KEY\<close> is such a failure.\<close>

theorem unavailable_service_gives_503_witness:
  "RagService_init None no_genai = Inl (RuntimeError api_key_missing)
   \<and> fst (rag_service None no_genai) = None
   \<and> chat (fst (rag_service None no_genai)) hello_request idle
       = (Inl (HTTPException 503 (error_message ''service_unavailable'')), idle)
   \<and> chat_alias (fst (rag_service None no_genai)) hello_request idle
       = (Inl (HTTPException 503 (error_message ''service_unavailable'')), idle)
   \<and> health (fst (rag_service None no_genai))
       = [(ascii ''status'', PyStr (ascii ''ok'')), (ascii ''rag_service_ready'', PyBool False)]"
proof -
  have h: "RagService_init None no_genai = Inl (RuntimeError api_key_missing)"
    by (simp add: RagService_init_def)
  from unavailable_service_gives_503 [where request = hello_request and s = idle, OF h]
  show ?thesis using h by blast
qed

section \<open>Failures of the model client\<close>




text \<open>
  C7. For a request with a non-blank message, when the model client returns no usable text
  (a falsy response, a response without text, or one with the empty text), the handler
  returns a normal \<open>ChatResponse\<close> whose answer is the fixed fallback message.
\<close>

theorem no_usable_text_gives_fallback:
  assumes "\<exists>c\<in>set (message request). \<not> py_isspace c"
    and "full_prompt (message request) (history_payload (conversation_history request)) = Inr p"
    and "model svc p (world s) = (Returns resp, w)"
    and "resp = None \<or> resp = Some (Response None) \<or> resp = Some (Response (Some []))"
  shows "\<exists>r. fst (chat (Some svc) request s) = Inr r \<and> answer r = fallback_answer"
  using assms(4)
  by (auto simp: chat_valid [OF assms(1)] chat_try_returns [OF assms(2,3)])

theorem no_usable_text_gives_fallback_witness:
  "(\<exists>c\<in>set (message hello_request). \<not> py_isspace c)
   \<and> full_prompt (message hello_request) (history_payload (conversation_history hello_request))
       = Inr hello_prompt
   \<and> model (stub_service (Returns (Some (Response (Some []))))) hello_prompt (world idle)
       = (Returns (Some (Response (Some []))), 1)
   \<and> (\<exists>r. fst (chat (Some (stub_service (Returns (Some (Response (Some [])))))) hello_request idle)
            = Inr r
          \<and> answer r = fallback_answer)"
proof -
  have h3: "model (stub_service (Returns (Some (Response (Some []))))) hello_prompt (world idle)
       = (Returns (Some (Response (Some []))), 1)"
    by (simp add: stub_service_def idle_def)
  from no_usable_text_gives_fallback [OF hello_request_valid hello_prompt_built h3]
  show ?thesis using hello_request_valid hello_prompt_built h3 by simp
qed

section \<open>Determinism of the prompt\<close>

text \<open>
  C8. The prompt depends on the history and the query alone. Two runs of
  \<open>generate_response\<close> on the same query and history, with any two services and from any
  two states (worlds and traces, even of different types), add the same events to their
  traces: the one call of the model client with the prompt \<open>full_prompt\<close> computes from
  the query and the history (or nothing, when building the prompt raised), and nothing else.
\<close>

theorem prompt_depends_only_on_history_and_query:
  "new_events s1 (snd (generate_response svc1 q h s1))
     = new_events s2 (snd (generate_response svc2 q h s2))
   \<and> new_events s1 (snd (generate_response svc1 q h s1))
     = (case full_prompt q h of Inl e \<Rightarrow> [] | Inr p \<Rightarrow> [Model_call p])"
  by (simp add: new_events_def generate_response_trace)

section \<open>Alias equivalence\<close>

text \<open>
  C9. \<open>POST /chat\<close> and \<open>POST /api/chat\<close> behave alike: for every value of the global,
  every request body and every state, the alias returns the result of the primary endpoint
  (the same response, or the same error status and message) and the same final state.
\<close>

theorem chat_alias_eq_chat: "chat_alias rs request s = chat rs request s"
  by (simp add: chat_alias_def)

section \<open>Roles outside the schema\<close>

text \<open>
  C10. In the loop of \<open>generate_response\<close>, run on plain role/content dictionaries with
  any role strings, an entry is rendered with the label \<open>User\<close> when its role is exactly
  \<open>user\<close> and with the label \<open>Assistant\<close> for every other role string; the chosen label
  is \<open>User\<close> only for the role \<open>user\<close>. So an entry with the role \<open>system\<close> becomes an
  \<open>Assistant\<close> line.
\<close>

theorem other_roles_render_as_assistant:
  "history_text_lines (map role_content_dict rcs) [] =
     Inr (map (\<lambda>rc. (if fst rc = ascii ''user'' then ascii ''User'' else ascii ''Assistant'')
                     @ ascii '': '' @ snd rc) rcs)
   \<and> ((if r = ascii ''user'' then ascii ''User'' else ascii ''Assistant'') = ascii ''User''
        \<longleftrightarrow> r = ascii ''user'')
   \<and> history_text_lines [role_content_dict (ascii ''system'', c)] [] = Inr [ascii ''Assistant: '' @ c]"
  by (simp add: history_text_lines_dicts [of _ "[]", simplified])
     (simp add: role_content_dict_def dict_index_def ascii_def)

end
